theory Spec2Isabelle
  imports Main
begin

section \<open>Values on the wire\<close>

text \<open>
  The handlers of \<^verbatim>\<open>server(3).js\<close> receive whatever a client sends. The values
  considered here are \<^verbatim>\<open>undefined\<close>, \<^verbatim>\<open>null\<close>, strings, arrays and object
  literals; numbers and booleans are left out. A string is the list of its code units,
  taken below 256.

  The three process-wide indices \<^verbatim>\<open>userSockets\<close>, \<^verbatim>\<open>presenceSubscriptions\<close> and
  \<^verbatim>\<open>socketSubscriptions\<close> are plain objects used as dictionaries, keyed by the string
  a property key converts to. Their own properties are a finite map; what a read finds
  under a key that has no own property is the subject of the section on plain objects.
\<close>

datatype jsval =
    JUndefined
  | JNull
  | JStr string
  | JArr "jsval list"
  | JObj "(string \<times> jsval) list"

text \<open>Truthiness, as \<^verbatim>\<open>if (v)\<close>, \<^verbatim>\<open>!v\<close> and \<^verbatim>\<open>a && b\<close> test it.\<close>

fun truthy :: "jsval \<Rightarrow> bool" where
  "truthy JUndefined = False"
| "truthy JNull = False"
| "truthy (JStr s) = (s \<noteq> [])"
| "truthy (JArr xs) = True"
| "truthy (JObj fs) = True"

text \<open>
  Conversion to a string, as a property key \<^verbatim>\<open>obj[v]\<close> and a template literal do it.
  An array joins its elements with commas, \<^verbatim>\<open>undefined\<close> and \<^verbatim>\<open>null\<close> elements
  giving the empty string.
\<close>

fun join_comma :: "string list \<Rightarrow> string" where
  "join_comma [] = []"
| "join_comma [s] = s"
| "join_comma (s # t # ss) = s @ '','' @ join_comma (t # ss)"

fun toStr :: "jsval \<Rightarrow> string" where
  "toStr JUndefined = ''undefined''"
| "toStr JNull = ''null''"
| "toStr (JStr s) = s"
| "toStr (JArr xs) =
     join_comma (map (\<lambda>x. if x = JUndefined \<or> x = JNull then [] else toStr x) xs)"
| "toStr (JObj fs) = ''[object Object]''"

text \<open>
  \<^verbatim>\<open>v.slice(0,12)\<close> inside the log lines: strings and arrays have the method, on
  anything else the call raises a TypeError.
\<close>

fun has_slice :: "jsval \<Rightarrow> bool" where
  "has_slice (JStr s) = True"
| "has_slice (JArr xs) = True"
| "has_slice v = False"


text \<open>Truthiness of \<^verbatim>\<open>v.length\<close>, for a value \<open>v\<close> that is itself truthy.\<close>

fun length_truthy :: "jsval \<Rightarrow> bool" where
  "length_truthy (JStr s) = (s \<noteq> [])"
| "length_truthy (JArr xs) = (xs \<noteq> [])"
| "length_truthy (JObj fs) = (case map_of fs ''length'' of None \<Rightarrow> False | Some v \<Rightarrow> truthy v)"
| "length_truthy v = False"

subsection \<open>normKey\<close>

text \<open>
  \<^verbatim>\<open>function normKey(k){ return (typeof k === 'string') ? k.replace(/\s+/g,'') : k; }\<close>

  Among the code units below 256 the class \<^verbatim>\<open>\s\<close> holds tab, line feed, vertical tab,
  form feed, carriage return, space and the no-break space.
\<close>

definition is_space :: "char \<Rightarrow> bool" where
  "is_space c \<longleftrightarrow>
     c \<in> set [CHR 0x09, CHR 0x0A, CHR 0x0B, CHR 0x0C, CHR 0x0D, CHR 0x20, CHR 0xA0]"

fun normKey :: "jsval \<Rightarrow> jsval" where
  "normKey (JStr s) = JStr (filter (\<lambda>c. \<not> is_space c) s)"
| "normKey v = v"

section \<open>Plain objects as dictionaries\<close>

text \<open>
  \<^verbatim>\<open>userSockets\<close> and \<^verbatim>\<open>presenceSubscriptions\<close> are created as \<^verbatim>\<open>{}\<close> and indexed
  by keys that clients send. A read \<^verbatim>\<open>obj[k]\<close> gives the own property \<open>k\<close> if there
  is one, else the member \<open>k\<close> of \<^verbatim>\<open>Object.prototype\<close> if there is one, else
  \<^verbatim>\<open>undefined\<close>. The members of \<^verbatim>\<open>Object.prototype\<close> are eleven functions, listed
  here with their \<^verbatim>\<open>length\<close> (the number of declared parameters), and the accessor
  \<^verbatim>\<open>__proto__\<close>, whose read gives \<^verbatim>\<open>Object.prototype\<close> itself.
\<close>

definition proto_methods :: "(string \<times> nat) list" where
  "proto_methods =
     [(''constructor'', 1), (''__defineGetter__'', 2), (''__defineSetter__'', 2),
      (''hasOwnProperty'', 1), (''__lookupGetter__'', 1), (''__lookupSetter__'', 1),
      (''isPrototypeOf'', 1), (''propertyIsEnumerable'', 1),
      (''toString'', 0), (''valueOf'', 0), (''toLocaleString'', 0)]"

definition proto_names :: "string list" where
  "proto_names = ''__proto__'' # map fst proto_methods"

datatype 'a slot = Own 'a | Inherited string | Undefined

definition get :: "(string \<rightharpoonup> 'a) \<Rightarrow> string \<Rightarrow> 'a slot" where
  "get obj k =
     (case obj k of
        Some v \<Rightarrow> Own v
      | None \<Rightarrow> if k \<in> set proto_names then Inherited k else Undefined)"

text \<open>
  Every inherited member is truthy. Its \<^verbatim>\<open>length\<close> is truthy for a function with
  parameters; \<^verbatim>\<open>Object.prototype\<close> has no \<^verbatim>\<open>length\<close>. No inherited member has a
  method \<^verbatim>\<open>forEach\<close>, \<^verbatim>\<open>filter\<close> or \<^verbatim>\<open>push\<close>: calling one raises a TypeError.
\<close>

definition member_length_truthy :: "string \<Rightarrow> bool" where
  "member_length_truthy n =
     (case map_of proto_methods n of None \<Rightarrow> False | Some arity \<Rightarrow> arity > 0)"

text \<open>
  The assignment \<^verbatim>\<open>obj[k] = v\<close> of a string \<open>v\<close> creates or overwrites the own
  property, except under the key \<^verbatim>\<open>__proto__\<close>, where the accessor ignores a value that
  is not an object. \<^verbatim>\<open>delete obj[k]\<close> removes the own property, if any.

  \<^verbatim>\<open>socketSubscriptions\<close> is indexed by socket ids only. These are random strings
  made by the transport library, not by clients; a socket id is taken not to be the name
  of a member of \<^verbatim>\<open>Object.prototype\<close>, and \<^verbatim>\<open>socketSubscriptions\<close> is read as the
  map of its own properties.
\<close>

definition put :: "(string \<rightharpoonup> string) \<Rightarrow> string \<Rightarrow> string \<Rightarrow> (string \<rightharpoonup> string)" where
  "put obj k v = (if k = ''__proto__'' then obj else obj(k \<mapsto> v))"

text \<open>
  \<^verbatim>\<open>xs.forEach(f)\<close> where a round of \<open>f\<close> may raise (\<open>None\<close>): the rounds
  before it have had their effect, the rounds after it do not run. The flag tells whether
  a round raised.
\<close>

fun forEach :: "('s \<Rightarrow> 'a \<Rightarrow> 's option) \<Rightarrow> 'a list \<Rightarrow> 's \<Rightarrow> 's \<times> bool" where
  "forEach f [] s = (s, False)"
| "forEach f (x # xs) s = (case f s x of None \<Rightarrow> (s, True) | Some s' \<Rightarrow> forEach f xs s')"

section \<open>Rate limiting\<close>

record rl_record =
  count :: nat
  startTime :: int

definition LIMIT :: nat where
  "LIMIT = 20"

definition TIME_FRAME :: int where
  "TIME_FRAME = 60 * 1000"

text \<open>
  \<^verbatim>\<open>isRateLimited(socket)\<close> reads the address of the socket and the clock; both are
  arguments here. The result is the returned flag and the updated \<^verbatim>\<open>rateLimit\<close> map.
\<close>

definition isRateLimited ::
  "string \<Rightarrow> int \<Rightarrow> (string \<rightharpoonup> rl_record) \<Rightarrow> bool \<times> (string \<rightharpoonup> rl_record)" where
  "isRateLimited ip now rateLimit =
     (case rateLimit ip of
        None \<Rightarrow> (False, rateLimit(ip \<mapsto> \<lparr>count = 1, startTime = now\<rparr>))
      | Some r \<Rightarrow>
          if now - startTime r > TIME_FRAME
          then (False, rateLimit(ip \<mapsto> \<lparr>count = 1, startTime = now\<rparr>))
          else if count r \<ge> LIMIT then (True, rateLimit)
          else (False, rateLimit(ip \<mapsto> r\<lparr>count := count r + 1\<rparr>)))"

text \<open>A run of calls from one address, at the given clock readings, oldest first.\<close>

fun admits :: "string \<Rightarrow> int list \<Rightarrow> (string \<rightharpoonup> rl_record) \<Rightarrow> bool list \<times> (string \<rightharpoonup> rl_record)" where
  "admits ip [] rateLimit = ([], rateLimit)"
| "admits ip (now # ts) rateLimit =
     (let (limited, rateLimit') = isRateLimited ip now rateLimit;
          (rest, rateLimit'') = admits ip ts rateLimit'
      in (limited # rest, rateLimit''))"

section \<open>Server state\<close>

record socket =
  sid :: string
  address :: string

text \<open>
  \<open>socketData_pubKey\<close> is \<^verbatim>\<open>socket.data.pubKey\<close> of the socket with the given id,
  \<open>rooms\<close> the room membership kept by the transport library (every socket is a member
  of the room named by its own id), \<open>storage\<close> the persistent key-value store.
\<close>

record state =
  rateLimit :: "string \<rightharpoonup> rl_record"
  userSockets :: "string \<rightharpoonup> string"
  presenceSubscriptions :: "string \<rightharpoonup> string list"
  socketSubscriptions :: "string \<rightharpoonup> jsval"
  socketData_pubKey :: "string \<Rightarrow> jsval"
  rooms :: "string \<Rightarrow> string set"
  storage :: "string \<rightharpoonup> jsval"

definition init :: state where
  "init = \<lparr>rateLimit = Map.empty, userSockets = Map.empty,
           presenceSubscriptions = Map.empty, socketSubscriptions = Map.empty,
           socketData_pubKey = (\<lambda>_. JUndefined), rooms = (\<lambda>_. {}),
           storage = Map.empty\<rparr>"

text \<open>
  What an emit is addressed to: \<^verbatim>\<open>io.to(r).emit\<close> reaches the members of room \<open>r\<close>,
  \<^verbatim>\<open>socket.emit\<close> the socket itself, \<^verbatim>\<open>socket.to(r).emit\<close> the members of \<open>r\<close>
  other than the sending socket. \<^verbatim>\<open>io.to(v)\<close> with a member \<open>v\<close> of
  \<^verbatim>\<open>Object.prototype\<close> in place of a room name (\<open>ToMember\<close>) names no room and
  reaches nobody.
\<close>

datatype target = ToRoom string | ToSelf string | ToOthers string string | ToMember string

type_synonym emission = "target \<times> string \<times> jsval"

fun recipients :: "state \<Rightarrow> target \<Rightarrow> string set" where
  "recipients st (ToRoom r) = rooms st r"
| "recipients st (ToSelf s) = {s}"
| "recipients st (ToOthers r s) = rooms st r - {s}"
| "recipients st (ToMember n) = {}"

text \<open>The events, with their payloads, that reach the socket with id \<open>c\<close>.\<close>

definition received :: "state \<Rightarrow> string \<Rightarrow> emission list \<Rightarrow> (string \<times> jsval) list" where
  "received st c es = map snd (filter (\<lambda>e. c \<in> recipients st (fst e)) es)"

text \<open>
  The outcome of one handler run: the state it leaves, the events it emitted, the lines
  written with \<^verbatim>\<open>console.error\<close>, and whether it ended by raising an exception (the
  state changes made before the exception stay).
\<close>

record outcome =
  post :: state
  emitted :: "emission list"
  console_error :: "string list"
  threw :: bool

definition returns :: "state \<Rightarrow> emission list \<Rightarrow> outcome" where
  "returns st es = \<lparr>post = st, emitted = es, console_error = [], threw = False\<rparr>"

definition throws :: "state \<Rightarrow> emission list \<Rightarrow> outcome" where
  "throws st es = \<lparr>post = st, emitted = es, console_error = [], threw = True\<rparr>"

section \<open>Connection registry\<close>

text \<open>\<open>lookup\<close> is the read \<^verbatim>\<open>userSockets[normKey(to)]\<close> of the relay handlers.\<close>

definition lookup :: "state \<Rightarrow> jsval \<Rightarrow> string slot" where
  "lookup st k = get (userSockets st) (toStr (normKey k))"

text \<open>
  What is read from \<^verbatim>\<open>userSockets\<close> is tested for truthiness
  (\<^verbatim>\<open>if (targetSocketId)\<close>, \<^verbatim>\<open>!!userSockets[...]\<close>): \<^verbatim>\<open>undefined\<close> and the empty
  string fail the test, a non-empty socket id and an inherited member pass it. The result
  is what \<^verbatim>\<open>io.to(targetSocketId)\<close> then addresses.
\<close>

fun target_of :: "string slot \<Rightarrow> target option" where
  "target_of (Own s) = (if s \<noteq> [] then Some (ToRoom s) else None)"
| "target_of (Inherited n) = Some (ToMember n)"
| "target_of Undefined = None"

definition online_target :: "state \<Rightarrow> jsval \<Rightarrow> target option" where
  "online_target st k = target_of (lookup st k)"

definition online :: "state \<Rightarrow> jsval \<Rightarrow> bool" where
  "online st k = (online_target st k \<noteq> None)"

text \<open>
  The fan-out of \<^verbatim>\<open>register\<close> and \<^verbatim>\<open>disconnect\<close>:

  \<^verbatim>\<open>const subscribers = presenceSubscriptions[key];\<close>
  \<^verbatim>\<open>if (subscribers && subscribers.length) {\<close>
  \<^verbatim>\<open>  console.log(... key.slice(0,12) ...);\<close>
  \<^verbatim>\<open>  subscribers.forEach(id => io.to(id).emit("presence-update", { pubKey: key, status }));\<close>
  \<^verbatim>\<open>}\<close>

  The result is \<open>None\<close> when the block raises: at \<^verbatim>\<open>key.slice\<close> for a key without
  that method, or at \<^verbatim>\<open>subscribers.forEach\<close> when \<open>subscribers\<close> is an inherited
  function with a truthy \<^verbatim>\<open>length\<close>.
\<close>

definition presence_update :: "jsval \<Rightarrow> string \<Rightarrow> string \<Rightarrow> emission" where
  "presence_update key status subscriberSocketId =
     (ToRoom subscriberSocketId, ''presence-update'',
      JObj [(''pubKey'', key), (''status'', JStr status)])"

definition notify :: "state \<Rightarrow> jsval \<Rightarrow> string \<Rightarrow> emission list option" where
  "notify st key status =
     (case get (presenceSubscriptions st) (toStr key) of
        Undefined \<Rightarrow> Some []
      | Own subscribers \<Rightarrow>
          if subscribers \<noteq> []
          then (if has_slice key then Some (map (presence_update key status) subscribers) else None)
          else Some []
      | Inherited n \<Rightarrow> if member_length_truthy n then None else Some [])"

definition register :: "socket \<Rightarrow> int \<Rightarrow> jsval \<Rightarrow> state \<Rightarrow> outcome" where
  "register socket now pubKey st =
     (let (limited, rl) = isRateLimited (address socket) now (rateLimit st);
          st1 = st\<lparr>rateLimit := rl\<rparr>
      in if limited then returns st1 []
         else if \<not> truthy pubKey then returns st1 []
         else
           let key = normKey pubKey;
               st2 = st1\<lparr>userSockets := put (userSockets st1) (toStr key) (sid socket),
                         socketData_pubKey := (socketData_pubKey st1)(sid socket := key)\<rparr>
           in if \<not> has_slice key then throws st2 []
              else
                (case notify st2 key ''online'' of
                   None \<Rightarrow> throws st2 []
                 | Some es \<Rightarrow> returns st2 es))"

section \<open>Presence subscriptions\<close>

text \<open>
  One round of the clean-up loop, which \<^verbatim>\<open>subscribe-to-presence\<close> and
  \<^verbatim>\<open>disconnect\<close> both contain:

  \<^verbatim>\<open>if (presenceSubscriptions[pubKey]) {\<close>
  \<^verbatim>\<open>  presenceSubscriptions[pubKey] = presenceSubscriptions[pubKey].filter(id => id !== socket.id);\<close>
  \<^verbatim>\<open>  if (presenceSubscriptions[pubKey].length === 0) delete presenceSubscriptions[pubKey];\<close>
  \<^verbatim>\<open>}\<close>

  Under an inherited member the test passes and \<^verbatim>\<open>.filter\<close> raises (\<open>None\<close>).
\<close>

definition remove_subscriber ::
  "string \<Rightarrow> (string \<rightharpoonup> string list) \<Rightarrow> jsval \<Rightarrow> (string \<rightharpoonup> string list) option" where
  "remove_subscriber socket_id ps pubKey =
     (case get ps (toStr pubKey) of
        Undefined \<Rightarrow> Some ps
      | Inherited n \<Rightarrow> None
      | Own subs \<Rightarrow>
          let subs' = filter (\<lambda>i. i \<noteq> socket_id) subs
          in Some (if subs' = [] then ps(toStr pubKey := None) else ps(toStr pubKey \<mapsto> subs')))"

text \<open>
  The clean-up block: \<^verbatim>\<open>if (old && old.length) old.forEach(...)\<close> over the stored
  forward entry of the socket. Only an array has \<^verbatim>\<open>forEach\<close>; on any other stored value
  that passes the test the call raises. The flag tells whether the block raised.
\<close>

definition cleanup :: "string \<Rightarrow> state \<Rightarrow> state \<times> bool" where
  "cleanup socket_id st =
     (case socketSubscriptions st socket_id of
        None \<Rightarrow> (st, False)
      | Some old \<Rightarrow>
          if truthy old \<and> length_truthy old
          then (case old of
                  JArr keys \<Rightarrow>
                    (let (ps, raised) =
                           forEach (remove_subscriber socket_id) keys (presenceSubscriptions st)
                     in (st\<lparr>presenceSubscriptions := ps\<rparr>, raised))
                | _ \<Rightarrow> (st, True))
          else (st, False))"

text \<open>
  One round of the loop that creates the new subscriptions:

  \<^verbatim>\<open>const key = normKey(pubKey);\<close>
  \<^verbatim>\<open>if (!presenceSubscriptions[key]) presenceSubscriptions[key] = [];\<close>
  \<^verbatim>\<open>presenceSubscriptions[key].push(socket.id);\<close>

  Under an inherited member the list is not created and \<^verbatim>\<open>.push\<close> raises (\<open>None\<close>).
\<close>

definition add_subscriber ::
  "string \<Rightarrow> (string \<rightharpoonup> string list) \<Rightarrow> jsval \<Rightarrow> (string \<rightharpoonup> string list) option" where
  "add_subscriber socket_id ps pubKey =
     (let key = toStr (normKey pubKey)
      in case get ps key of
           Undefined \<Rightarrow> Some (ps(key \<mapsto> [socket_id]))
         | Own subs \<Rightarrow> Some (ps(key \<mapsto> subs @ [socket_id]))
         | Inherited n \<Rightarrow> None)"

definition subscribe :: "socket \<Rightarrow> jsval \<Rightarrow> state \<Rightarrow> outcome" where
  "subscribe socket contactPubKeys st =
     (if contactPubKeys = JUndefined \<or> contactPubKeys = JNull then throws st []
      else
        let (st1, raised) = cleanup (sid socket) st
        in if raised then throws st1 []
           else
             let st2 = st1\<lparr>socketSubscriptions :=
                             (socketSubscriptions st1)(sid socket \<mapsto> contactPubKeys)\<rparr>
             in (case contactPubKeys of
                   JArr keys \<Rightarrow>
                     let (ps, raised') =
                           forEach (add_subscriber (sid socket)) keys (presenceSubscriptions st2);
                         st3 = st2\<lparr>presenceSubscriptions := ps\<rparr>;
                         initialOnlineContacts = filter (online st3) keys
                     in if raised' then throws st3 []
                        else returns st3
                          [(ToSelf (sid socket), ''presence-initial-status'', JArr initialOnlineContacts)]
                 | _ \<Rightarrow> throws st2 []))"

section \<open>Disconnect\<close>

text \<open>
  The transport library takes the socket out of every room before it runs the
  \<^verbatim>\<open>disconnect\<close> handler. The handler does all its work under \<^verbatim>\<open>if (pubKey)\<close>, with
  \<^verbatim>\<open>pubKey = socket.data.pubKey\<close>.
\<close>

definition disconnect :: "socket \<Rightarrow> state \<Rightarrow> outcome" where
  "disconnect socket st0 =
     (let st = st0\<lparr>rooms := (\<lambda>r. rooms st0 r - {sid socket})\<rparr>;
          pubKey = socketData_pubKey st (sid socket)
      in if \<not> truthy pubKey then returns st []
         else
           (case notify st pubKey ''offline'' of
              None \<Rightarrow> throws st []
            | Some es \<Rightarrow>
                let (st1, raised) = cleanup (sid socket) st
                in if raised then throws st1 es
                   else
                     let st2 = st1\<lparr>socketSubscriptions := (socketSubscriptions st1)(sid socket := None)\<rparr>;
                         st3 = st2\<lparr>userSockets := (userSockets st2)(toStr pubKey := None)\<rparr>
                     in if has_slice pubKey then returns st3 es else throws st3 es))"

section \<open>Relay\<close>





text \<open>
  Rooms: a new socket is a member of the room named by its id; \<^verbatim>\<open>join\<close> adds it to the
  named room; \<^verbatim>\<open>signal\<close> relays \<^verbatim>\<open>{ room, payload }\<close> with \<^verbatim>\<open>socket.to(room)\<close>.
\<close>

definition connect :: "socket \<Rightarrow> state \<Rightarrow> outcome" where
  "connect socket st =
     returns (st\<lparr>rooms := (rooms st)(sid socket := insert (sid socket) (rooms st (sid socket)))\<rparr>) []"

definition join :: "socket \<Rightarrow> string \<Rightarrow> state \<Rightarrow> outcome" where
  "join socket room st =
     returns (st\<lparr>rooms := (rooms st)(room := insert (sid socket) (rooms st room))\<rparr>) []"

definition signal :: "socket \<Rightarrow> string \<Rightarrow> jsval \<Rightarrow> state \<Rightarrow> outcome" where
  "signal socket room payload st =
     returns st [(ToOthers room (sid socket), ''signal'',
                  JObj [(''room'', JStr room), (''payload'', payload)])]"

section \<open>Example connections\<close>

definition sockA :: socket where
  "sockA = \<lparr>sid = ''sA'', address = ''10.0.0.1''\<rparr>"

definition sockB :: socket where
  "sockB = \<lparr>sid = ''sB'', address = ''10.0.0.2''\<rparr>"

definition connected :: state where
  "connected = post (connect sockB (post (connect sockA init)))"




text \<open>Connection A has registered \<^verbatim>\<open>"pk_a"\<close>, then connection B has subscribed to it.\<close>

definition scenario2 :: state where
  "scenario2 = post (subscribe sockB (JArr [JStr ''pk_a''])
                      (post (register sockA 0 (JStr ''pk_a'') connected)))"





section \<open>Basic facts\<close>

lemmas handler_defs =
  register_def subscribe_def disconnect_def connect_def notify_def
  cleanup_def add_subscriber_def remove_subscriber_def
  get_def put_def proto_names_def proto_methods_def member_length_truthy_def
  isRateLimited_def lookup_def online_def online_target_def presence_update_def
  received_def init_def connected_def sockA_def sockB_def is_space_def LIMIT_def TIME_FRAME_def
  returns_def throws_def Let_def

lemma post_returns [simp]: "post (returns st es) = st"
  and emitted_returns [simp]: "emitted (returns st es) = es"
  and threw_returns [simp]: "threw (returns st es) = False"
  and console_error_returns [simp]: "console_error (returns st es) = []"
  by (simp_all add: returns_def)

lemma post_throws [simp]: "post (throws st es) = st"
  and emitted_throws [simp]: "emitted (throws st es) = es"
  and threw_throws [simp]: "threw (throws st es) = True"
  and console_error_throws [simp]: "console_error (throws st es) = []"
  by (simp_all add: throws_def)

section \<open>The rate limiter\<close>

lemma isRateLimited_open:
  "rl ip = None \<or> (\<exists>r. rl ip = Some r \<and> now - startTime r > TIME_FRAME) \<Longrightarrow>
   isRateLimited ip now rl = (False, rl(ip \<mapsto> \<lparr>count = 1, startTime = now\<rparr>))"
  by (auto simp: isRateLimited_def)

lemma isRateLimited_within:
  "rl ip = Some r \<Longrightarrow> now - startTime r \<le> TIME_FRAME \<Longrightarrow>
   isRateLimited ip now rl =
     (if count r \<ge> LIMIT then (True, rl) else (False, rl(ip \<mapsto> r\<lparr>count := count r + 1\<rparr>)))"
  by (simp add: isRateLimited_def)

lemma admits_within:
  "rl ip = Some \<lparr>count = c, startTime = t0\<rparr> \<Longrightarrow> \<forall>t\<in>set ts. t - t0 \<le> TIME_FRAME \<Longrightarrow>
   c + length ts \<le> LIMIT \<Longrightarrow>
   admits ip ts rl =
     (replicate (length ts) False, rl(ip \<mapsto> \<lparr>count = c + length ts, startTime = t0\<rparr>))"
proof (induction ts arbitrary: rl c)
  case Nil
  then show ?case by (simp add: fun_upd_idem)
next
  case (Cons t ts)
  let ?rl = "rl(ip \<mapsto> \<lparr>count = Suc c, startTime = t0\<rparr>)"
  from Cons.prems have step: "isRateLimited ip t rl = (False, ?rl)"
    by (simp add: isRateLimited_within)
  have "admits ip ts ?rl =
     (replicate (length ts) False, ?rl(ip \<mapsto> \<lparr>count = Suc c + length ts, startTime = t0\<rparr>))"
    using Cons.prems by (intro Cons.IH) auto
  with step show ?case by (simp add: fun_eq_iff)
qed

lemma admits_append:
  "admits ip (xs @ ys) rl =
     (fst (admits ip xs rl) @ fst (admits ip ys (snd (admits ip xs rl))),
      snd (admits ip ys (snd (admits ip xs rl))))"
  by (induction xs arbitrary: rl) (simp_all add: split_beta)

text \<open>
  C5. With the ceiling 20 and the window of 60000 ms, take an address whose first call,
  at time \<open>t0\<close>, opens a window (no record yet, or an expired one). That call and 19
  more within the window are all admitted; a 21st call within the window is blocked and
  leaves the record at count 20; a later call made once more than 60000 ms have passed
  since \<open>t0\<close> (at \<open>t0 + 60001\<close>, say) is admitted and leaves the record at count 1 with
  a new window start. A call made within the window of a record never lowers its count
  and keeps its window start.
\<close>

theorem rate_limit_window:
  assumes "rl ip = None \<or> (\<exists>r. rl ip = Some r \<and> t0 - startTime r > TIME_FRAME)"
    and "length ts = 19"
    and "\<forall>t\<in>set ts. t - t0 \<le> TIME_FRAME"
    and "t21 - t0 \<le> TIME_FRAME"
    and "t22 - t0 > TIME_FRAME"
  shows "LIMIT = 20 \<and> TIME_FRAME = 60000 \<and>
         fst (admits ip (t0 # ts @ [t21, t22]) rl) = replicate 20 False @ [True, False] \<and>
         snd (admits ip (t0 # ts @ [t21]) rl) ip = Some \<lparr>count = 20, startTime = t0\<rparr> \<and>
         snd (admits ip (t0 # ts @ [t21, t22]) rl) ip = Some \<lparr>count = 1, startTime = t22\<rparr> \<and>
         (\<forall>m r now. m ip = Some r \<and> now - startTime r \<le> TIME_FRAME \<longrightarrow>
            (\<exists>r'. snd (isRateLimited ip now m) ip = Some r' \<and>
                  startTime r' = startTime r \<and> count r \<le> count r'))"
proof -
  let ?rl1 = "rl(ip \<mapsto> \<lparr>count = 1, startTime = t0\<rparr>)"
  let ?rl20 = "rl(ip \<mapsto> \<lparr>count = 20, startTime = t0\<rparr>)"
  have first: "isRateLimited ip t0 rl = (False, ?rl1)"
    using assms(1) by (rule isRateLimited_open)
  have mid: "admits ip ts ?rl1 = (replicate 19 False, ?rl20)"
    using admits_within [of ?rl1 ip 1 t0 ts] assms(2,3) by (simp add: LIMIT_def)
  have blocked: "isRateLimited ip t21 ?rl20 = (True, ?rl20)"
    using assms(4) by (simp add: isRateLimited_within LIMIT_def)
  have reset: "isRateLimited ip t22 ?rl20 = (False, ?rl20(ip \<mapsto> \<lparr>count = 1, startTime = t22\<rparr>))"
    using assms(5) by (intro isRateLimited_open) simp
  have mono: "\<exists>r'. snd (isRateLimited ip now m) ip = Some r' \<and>
                  startTime r' = startTime r \<and> count r \<le> count r'"
    if "m ip = Some r" "now - startTime r \<le> TIME_FRAME" for m r now
    using that by (simp add: isRateLimited_within)
  show ?thesis
    using first mid blocked reset mono
    by (simp add: admits_append LIMIT_def TIME_FRAME_def numeral_eq_Suc)
qed

theorem rate_limit_window_witness:
  "fst (admits ''10.0.0.1'' (0 # replicate 19 1000 @ [60000, 60001]) Map.empty)
     = replicate 20 False @ [True, False] \<and>
   snd (admits ''10.0.0.1'' (0 # replicate 19 1000 @ [60000, 60001]) Map.empty) ''10.0.0.1''
     = Some \<lparr>count = 1, startTime = 60001\<rparr>"
  using rate_limit_window [of Map.empty "''10.0.0.1''" 0 "replicate 19 1000" 60000 60001]
  by (simp add: TIME_FRAME_def)

section \<open>Reads and writes of plain objects\<close>






section \<open>Registry\<close>









section \<open>Teardown\<close>











section \<open>The reply to a subscribe\<close>








section \<open>Connection requests\<close>


lemma online_target_rateLimit [simp]:
  "online_target (st\<lparr>rateLimit := rl\<rparr>) k = online_target st k"
  by (simp add: online_target_def lookup_def)




section \<open>Presence pushes\<close>






section \<open>Room broadcast\<close>

text \<open>
  C9. \<^verbatim>\<open>signal({room, payload})\<close> changes no state and is received, as
  \<^verbatim>\<open>signal({room, payload})\<close> with the same payload, by exactly the members of the
  room other than the sender; with no other member nobody receives anything.
  \<^verbatim>\<open>join\<close> makes the connection a member of the room: after two different connections
  have joined a room and one of them sends a signal, the other receives it and the sender
  does not.
\<close>

theorem signal_reaches_others:
  "post (signal s R P st) = st \<and> \<not> threw (signal s R P st) \<and>
   (\<forall>c. received st c (emitted (signal s R P st)) =
      (if c \<in> rooms st R \<and> c \<noteq> sid s
       then [(''signal'', JObj [(''room'', JStr R), (''payload'', P)])] else [])) \<and>
   rooms (post (join s R st)) R = insert (sid s) (rooms st R) \<and>
   (\<forall>b st'. sid b \<noteq> sid s \<and> st' = post (join b R (post (join s R st))) \<longrightarrow>
      received st' (sid b) (emitted (signal s R P st')) =
        [(''signal'', JObj [(''room'', JStr R), (''payload'', P)])] \<and>
      received st' (sid s) (emitted (signal s R P st')) = [])"
  by (simp add: signal_def join_def received_def)

theorem signal_reaches_others_witness:
  "received (post (join sockB ''room1'' (post (join sockA ''room1'' connected)))) ''sB''
     (emitted (signal sockA ''room1'' (JStr ''offer'')
        (post (join sockB ''room1'' (post (join sockA ''room1'' connected)))))) =
     [(''signal'', JObj [(''room'', JStr ''room1''), (''payload'', JStr ''offer'')])] \<and>
   received (post (join sockB ''room1'' (post (join sockA ''room1'' connected)))) ''sA''
     (emitted (signal sockA ''room1'' (JStr ''offer'')
        (post (join sockB ''room1'' (post (join sockA ''room1'' connected)))))) = []"
proof -
  have d: "sid sockB \<noteq> sid sockA" by (simp add: sockA_def sockB_def)
  note scenario = signal_reaches_others [of sockA "''room1''" "JStr ''offer''" connected,
      THEN conjunct2, THEN conjunct2, THEN conjunct2, THEN conjunct2, rule_format, of sockB]
  from scenario [OF conjI, OF d refl]
  show ?thesis by (simp add: sockA_def sockB_def)
qed

section \<open>Missing and malformed input\<close>

text \<open>
  C4, as the code has it. A register whose identity is missing (\<^verbatim>\<open>undefined\<close>,
  \<^verbatim>\<open>null\<close> or the empty string) returns normally, emits nothing and leaves the
  three indices as they were. A subscribe whose payload is \<^verbatim>\<open>undefined\<close> or \<^verbatim>\<open>null\<close>
  leaves the whole state as it was and emits nothing; the handler ends by raising.
\<close>

theorem missing_input_changes_nothing:
  "(pubKey = JUndefined \<or> pubKey = JNull \<or> pubKey = JStr [] \<longrightarrow>
      userSockets (post (register s t pubKey st)) = userSockets st \<and>
      presenceSubscriptions (post (register s t pubKey st)) = presenceSubscriptions st \<and>
      socketSubscriptions (post (register s t pubKey st)) = socketSubscriptions st \<and>
      emitted (register s t pubKey st) = [] \<and>
      console_error (register s t pubKey st) = [] \<and>
      \<not> threw (register s t pubKey st)) \<and>
   (payload = JUndefined \<or> payload = JNull \<longrightarrow>
      post (subscribe s payload st) = st \<and>
      emitted (subscribe s payload st) = [] \<and>
      console_error (subscribe s payload st) = [] \<and>
      threw (subscribe s payload st))"
  by (auto simp: register_def subscribe_def Let_def split_beta)

theorem missing_input_changes_nothing_witness:
  "userSockets (post (register sockA 0 JUndefined scenario2)) = userSockets scenario2 \<and>
   emitted (register sockA 0 (JStr []) scenario2) = [] \<and>
   post (subscribe sockA JNull scenario2) = scenario2 \<and>
   threw (subscribe sockA JNull scenario2)"
  using missing_input_changes_nothing [of JUndefined sockA 0 scenario2 JNull]
        missing_input_changes_nothing [of "JStr []" sockA 0 scenario2 JNull]
  by simp

text \<open>
  C4, as the claim has it. An identity of two spaces is empty after normalization, and
  its register creates the registry entry of the empty key. A subscribe whose payload is
  a string instead of an array replaces the forward entry of the connection by that
  string, removes the connection from the reverse index, and ends by raising.
\<close>

theorem validation_silent_noop_counterexample:
  "normKey (JStr ''  '') = JStr [] \<and>
   userSockets connected [] = None \<and>
   userSockets (post (register sockA 0 (JStr ''  '') connected)) [] = Some ''sA'' \<and>
   socketSubscriptions scenario2 ''sB'' = Some (JArr [JStr ''pk_a'']) \<and>
   presenceSubscriptions scenario2 ''pk_a'' = Some [''sB''] \<and>
   socketSubscriptions (post (subscribe sockB (JStr ''pk_a'') scenario2)) ''sB'' = Some (JStr ''pk_a'') \<and>
   presenceSubscriptions (post (subscribe sockB (JStr ''pk_a'') scenario2)) ''pk_a'' = None \<and>
   threw (subscribe sockB (JStr ''pk_a'') scenario2)"
  by (simp add: handler_defs scenario2_def)

section \<open>Subscriptions that are never removed\<close>

text \<open>
  C1. Connection A subscribes to \<^verbatim>\<open>["pk a"]\<close> and then to \<^verbatim>\<open>[]\<close>. The first
  subscribe stores the list as sent, not normalized, as the forward entry, and enters A
  under the normalized key \<^verbatim>\<open>"pka"\<close> of the reverse index. The clean-up of the second
  subscribe looks under the stored key \<^verbatim>\<open>"pk a"\<close>, finds nothing, and A stays in the
  reverse index under \<^verbatim>\<open>"pka"\<close> while its forward entry is empty.
\<close>

theorem resubscribe_leaves_residue:
  "socketSubscriptions (post (subscribe sockA (JArr [JStr ''pk a'']) connected)) ''sA'' =
     Some (JArr [JStr ''pk a'']) \<and>
   normKey (JStr ''pk a'') = JStr ''pka'' \<and>
   presenceSubscriptions (post (subscribe sockA (JArr [JStr ''pk a'']) connected)) ''pka'' =
     Some [''sA''] \<and>
   \<not> threw (subscribe sockA (JArr []) (post (subscribe sockA (JArr [JStr ''pk a'']) connected))) \<and>
   socketSubscriptions
     (post (subscribe sockA (JArr []) (post (subscribe sockA (JArr [JStr ''pk a'']) connected)))) ''sA'' =
     Some (JArr []) \<and>
   presenceSubscriptions
     (post (subscribe sockA (JArr []) (post (subscribe sockA (JArr [JStr ''pk a'']) connected)))) ''pka'' =
     Some [''sA'']"
  by (simp add: handler_defs)

text \<open>
  C2. Connection B subscribes to \<^verbatim>\<open>["pk_a"]\<close>, never registers, and disconnects. Its
  \<^verbatim>\<open>socket.data.pubKey\<close> is undefined, the handler skips its whole body, and after the
  disconnect B is still in the reverse index under \<^verbatim>\<open>"pk_a"\<close> and its forward entry is
  still stored.
\<close>

theorem disconnect_unregistered_keeps_subscriptions:
  "socketData_pubKey (post (subscribe sockB (JArr [JStr ''pk_a'']) connected)) ''sB'' = JUndefined \<and>
   \<not> threw (disconnect sockB (post (subscribe sockB (JArr [JStr ''pk_a'']) connected))) \<and>
   presenceSubscriptions
     (post (disconnect sockB (post (subscribe sockB (JArr [JStr ''pk_a'']) connected)))) ''pk_a'' =
     Some [''sB''] \<and>
   socketSubscriptions
     (post (disconnect sockB (post (subscribe sockB (JArr [JStr ''pk_a'']) connected)))) ''sB'' =
     Some (JArr [JStr ''pk_a''])"
  by (simp add: handler_defs)

end
